theory Spec2Isabelle
  imports Main "HOL-Library.Sublist" "HOL-Library.Word"
begin

section \<open>Python values, exceptions and string primitives\<close>

text \<open>
  An exception object is its class name and the text \<open>str(e)\<close>. Every exception of the
  model derives from Python's \<open>Exception\<close>, the class the handlers of the source catch.
  Strings are lists of bytes (UTF-8); the separator and the prefix the source looks for
  are ASCII, so searching and splitting bytes finds what Python finds on code points.
\<close>

datatype exn = Exn (exn_class: string) (exn_str: string)

text \<open>
  The request bodies are parsed JSON: \<open>history: list\<close> and \<open>file_ids: list | None\<close> of
  \<open>ChatRequest\<close> hold arbitrary JSON values. \<open>JObj\<close> carries the items of a dict.
\<close>

datatype jval =
    JNull
  | JBool bool
  | JNum int
  | JStr string
  | JList "jval list"
  | JObj "(string \<times> jval) list"

type_synonym bytes = "8 word list"

text \<open>\<open>s.startswith(p)\<close>.\<close>

definition startswith :: "string \<Rightarrow> string \<Rightarrow> bool" where
  "startswith s p = prefix p s"

text \<open>\<open>sub in s\<close> on strings: \<open>sub\<close> occurs at some position of \<open>s\<close>.\<close>

fun contains :: "string \<Rightarrow> string \<Rightarrow> bool" where
  "contains sub [] = (sub = [])"
| "contains sub (c # cs) = (startswith (c # cs) sub \<or> contains sub cs)"

text \<open>
  \<open>s.split(sep)\<close> scans \<open>s\<close> from the left; at each occurrence of \<open>sep\<close> it closes the
  current piece and resumes behind the occurrence, so occurrences never overlap.
  \<open>piece\<close> is the current piece, reversed. Python raises ValueError for an empty
  separator; the only separator of the source is the literal \<open>"/files/"\<close>.
\<close>

fun split_scan :: "string \<Rightarrow> string \<Rightarrow> string \<Rightarrow> string list" where
  "split_scan sep piece [] = [rev piece]"
| "split_scan sep piece (c # cs) =
     (if startswith (c # cs) sep
      then rev piece # split_scan sep [] (drop (length sep - 1) cs)
      else split_scan sep (c # piece) cs)"

definition str_split :: "string \<Rightarrow> string \<Rightarrow> string list" where
  "str_split s sep = split_scan sep [] s"

text \<open>\<open>msg[key]\<close> for a string key: KeyError on a dict without the key, TypeError on
  a value that is not a dict. The message texts stand for the interpreter's, which depend
  on the value's type; the properties proved here do not read them.\<close>

fun subscript :: "jval \<Rightarrow> string \<Rightarrow> exn + jval" where
  "subscript (JObj kvs) key =
     (case map_of kvs key of
        None \<Rightarrow> Inl (Exn ''KeyError'' key)
      | Some v \<Rightarrow> Inr v)"
| "subscript v key = Inl (Exn ''TypeError'' ''indices must be integers or slices, not str'')"

text \<open>An f-string field holding \<open>str | None\<close>.\<close>

fun format_opt :: "string option \<Rightarrow> string" where
  "format_opt None = ''None''"
| "format_opt (Some s) = s"

section \<open>Data model\<close>

text \<open>The fields of the provider's file handle that the source reads:
  \<open>f.name\<close>, \<open>f.uri\<close> and \<open>f.state.name\<close>.\<close>

record gfile =
  gf_name :: string
  gf_uri :: string
  gf_state_name :: string

text \<open>\<open>class FileUploadResponse(BaseModel)\<close>.\<close>

record FileUploadResponse =
  filename :: string
  file_id :: string
  mime_type :: string
  uri :: string

text \<open>The fields of FastAPI's \<open>UploadFile\<close> that the source reads; \<open>uf_content\<close> is
  what \<open>await file.read()\<close> returns.\<close>

record UploadFile =
  uf_filename :: "string option"
  uf_content_type :: "string option"
  uf_content :: bytes

text \<open>\<open>class ChatRequest(BaseModel)\<close>.\<close>

record ChatRequest =
  req_message :: string
  req_history :: "jval list"
  req_file_ids :: "jval list option"

text \<open>One entry of \<open>gemini_history\<close>: \<open>{"role": role, "parts": [msg['content']]}\<close>.\<close>

record turn =
  turn_role :: string
  turn_parts :: "jval list"

text \<open>An element of \<open>message_parts\<close>: the message string or a file handle.\<close>

datatype part = PText string | PFile gfile

text \<open>
  The object \<open>chat.send_message\<close> returns. The source reads its property
  \<open>response.text\<close>, which the SDK computes from the candidates and which raises when the
  reply holds no text: the object carries the outcome of that read.
\<close>

datatype gresponse = GResponse (response_text: "exn + string")

section \<open>Effects\<close>

text \<open>
  The lines the source prints, one constructor per \<open>print\<close> statement, carrying the
  values its f-string interpolates.
\<close>

datatype log_line =
    DebugSavedLocally string
  | DebugAskQuestion string "jval list option"
  | DebugProcessing
  | DebugExtracted string string
  | DebugRawId jval
  | DebugRetrieved string string
  | WarningNotActive string string
  | ErrorCouldNotGet jval string
  | DebugAttached nat
  | DebugNoValid
  | DebugSending
  | DebugReceived
  | Traceback exn
  | CriticalError string
  | DebugDeleting string
  | ErrorDeleting string string

text \<open>
  The observable trace of a call, in program order: each print, and each call of the
  operating system or of the provider SDK with its arguments and its outcome.
\<close>

datatype effect =
    Print log_line
  | Makedirs string "exn option"
  | WriteFile string bytes "exn option"
  | UploadCall bytes "string option" string "exn + gfile"
  | NewModel string string "exn option"
  | StartChat "turn list" "exn option"
  | GetFile jval "exn + gfile"
  | SendMessage "part list" "exn + gresponse"
  | DeleteCall string "exn option"

text \<open>
  The operating system and the provider SDK are outside the repository: they are
  parameters of the model, functions on a world state \<open>'w\<close> that return the outcome
  (an exception or a value) and the next world.
  \<open>open_wb_write p c\<close> is the block \<open>with open(p, "wb") as f: f.write(c)\<close>.
  \<open>read_file p\<close> is what the framework does with a \<open>FileResponse(p)\<close> when it sends
  it: it reads the regular file at \<open>p\<close>, and fails when there is none.
\<close>

record 'w env =
  os_path_exists :: "string \<Rightarrow> 'w \<Rightarrow> bool"
  os_makedirs :: "string \<Rightarrow> 'w \<Rightarrow> exn option \<times> 'w"
  open_wb_write :: "string \<Rightarrow> bytes \<Rightarrow> 'w \<Rightarrow> exn option \<times> 'w"
  genai_upload_file :: "bytes \<Rightarrow> string option \<Rightarrow> string \<Rightarrow> 'w \<Rightarrow> (exn + gfile) \<times> 'w"
  genai_GenerativeModel :: "string \<Rightarrow> string \<Rightarrow> 'w \<Rightarrow> exn option \<times> 'w"
  start_chat :: "turn list \<Rightarrow> 'w \<Rightarrow> exn option \<times> 'w"
  genai_get_file :: "jval \<Rightarrow> 'w \<Rightarrow> (exn + gfile) \<times> 'w"
  send_message :: "part list \<Rightarrow> 'w \<Rightarrow> (exn + gresponse) \<times> 'w"
  genai_delete_file :: "string \<Rightarrow> 'w \<Rightarrow> exn option \<times> 'w"
  read_file :: "string \<Rightarrow> 'w \<Rightarrow> exn + bytes"

section \<open>gemini_service.py: GeminiService.upload_file\<close>

definition default_mime :: string where
  "default_mime = ''application/octet-stream''"

text \<open>\<open>file.content_type or "application/octet-stream"\<close>: \<open>None\<close> and the empty string
  are falsy.\<close>

fun mime_or_default :: "string option \<Rightarrow> string" where
  "mime_or_default None = default_mime"
| "mime_or_default (Some s) = (if s = [] then default_mime else s)"

definition local_path :: "string option \<Rightarrow> string" where
  "local_path fname = ''uploads/'' @ format_opt fname"

text \<open>The constructor call of lines 48-53; pydantic rejects a \<open>filename\<close> that is \<open>None\<close>.\<close>

fun make_response :: "string option \<Rightarrow> string \<Rightarrow> gfile \<Rightarrow> exn + FileUploadResponse" where
  "make_response None mt g = Inl (Exn ''ValidationError'' ''filename: Input should be a valid string'')"
| "make_response (Some fname) mt g =
     Inr \<lparr>filename = fname, file_id = gf_uri g, mime_type = mt, uri = gf_uri g\<rparr>"

definition upload_file ::
  "'w env \<Rightarrow> UploadFile \<Rightarrow> 'w \<Rightarrow> (exn + FileUploadResponse) \<times> effect list \<times> 'w" where
  "upload_file P file w =
     (let content = uf_content file;
          (r1, eff1, w1) =
            (if \<not> os_path_exists P ''uploads'' w
             then (case os_makedirs P ''uploads'' w of (r, w') \<Rightarrow> (r, [Makedirs ''uploads'' r], w'))
             else (None, [], w))
      in case r1 of
           Some e \<Rightarrow> (Inl e, eff1, w1)
         | None \<Rightarrow>
            (let file_path = local_path (uf_filename file);
                 (r2, w2) = open_wb_write P file_path content w1;
                 eff2 = eff1 @ [WriteFile file_path content r2]
             in case r2 of
                  Some e \<Rightarrow> (Inl e, eff2, w2)
                | None \<Rightarrow>
                   (let mt = mime_or_default (uf_content_type file);
                        (r3, w3) = genai_upload_file P content (uf_filename file) mt w2;
                        eff3 = eff2 @ [Print (DebugSavedLocally file_path),
                                       UploadCall content (uf_filename file) mt r3]
                    in case r3 of
                         Inl e \<Rightarrow> (Inl e, eff3, w3)
                       | Inr g \<Rightarrow> (make_response (uf_filename file) mt g, eff3, w3))))"

section \<open>gemini_service.py: GeminiService.ask_question\<close>

definition model_name :: string where
  "model_name = ''gemini-2.0-flash''"

definition system_instruction :: string where
  "system_instruction =
     ''You are a PDF-based RAG assistant. Answer only from uploaded documents. You have access to metadata. [page x]''"

text \<open>Lines 66-72: the loop that builds \<open>gemini_history\<close>; the first subscript that
  raises ends it.\<close>

fun gemini_history :: "jval list \<Rightarrow> exn + turn list" where
  "gemini_history [] = Inr []"
| "gemini_history (msg # rest) =
     (case subscript msg ''role'' of
        Inl e \<Rightarrow> Inl e
      | Inr r \<Rightarrow>
         (case subscript msg ''content'' of
            Inl e \<Rightarrow> Inl e
          | Inr c \<Rightarrow>
             (case gemini_history rest of
                Inl e \<Rightarrow> Inl e
              | Inr ts \<Rightarrow>
                 Inr (\<lparr>turn_role = (if r = JStr ''user'' then ''user'' else ''model''),
                       turn_parts = [c]\<rparr> # ts))))"

text \<open>Line 84, for a \<open>fid\<close> that is a \<open>str\<close>.\<close>

definition is_file_uri :: "string \<Rightarrow> bool" where
  "is_file_uri fid = (startswith fid ''http'' \<and> contains ''/files/'' fid)"

text \<open>Line 85: \<open>"files/" + fid.split("/files/")[-1]\<close>.\<close>

definition clean_id :: "string \<Rightarrow> string" where
  "clean_id fid = ''files/'' @ last (str_split fid ''/files/'')"

text \<open>Lines 84-90: the value appended to \<open>clean_file_ids\<close> for one \<open>fid\<close>.\<close>

fun clean_fid :: "jval \<Rightarrow> jval" where
  "clean_fid (JStr fid) = (if is_file_uri fid then JStr (clean_id fid) else JStr fid)"
| "clean_fid fid = fid"

text \<open>Lines 84-90: the line printed for one \<open>fid\<close>.\<close>

fun clean_log :: "jval \<Rightarrow> log_line" where
  "clean_log (JStr fid) =
     (if is_file_uri fid then DebugExtracted (clean_id fid) fid else DebugRawId (JStr fid))"
| "clean_log fid = DebugRawId fid"

text \<open>Lines 81-90.\<close>

definition clean_file_ids :: "jval list \<Rightarrow> jval list \<times> effect list" where
  "clean_file_ids fids = (map clean_fid fids, map (\<lambda>fid. Print (clean_log fid)) fids)"

text \<open>Lines 94-102: the body of the second loop, returning what it appends to
  \<open>valid_files\<close>.\<close>

definition get_one :: "'w env \<Rightarrow> jval \<Rightarrow> 'w \<Rightarrow> gfile list \<times> effect list \<times> 'w" where
  "get_one P fid w =
     (case genai_get_file P fid w of
        (Inl e, w1) \<Rightarrow>
          ([], [GetFile fid (Inl e), Print (ErrorCouldNotGet fid (exn_str e))], w1)
      | (Inr f, w1) \<Rightarrow>
          (if gf_state_name f = ''ACTIVE''
           then ([f], [GetFile fid (Inr f),
                       Print (DebugRetrieved (gf_name f) (gf_state_name f))], w1)
           else ([], [GetFile fid (Inr f),
                      Print (DebugRetrieved (gf_name f) (gf_state_name f)),
                      Print (WarningNotActive (gf_name f) (gf_state_name f))], w1)))"

text \<open>Lines 92-102.\<close>

fun valid_files :: "'w env \<Rightarrow> jval list \<Rightarrow> 'w \<Rightarrow> gfile list \<times> effect list \<times> 'w" where
  "valid_files P [] w = ([], [], w)"
| "valid_files P (fid # fids) w =
     (case get_one P fid w of
        (v, eff1, w1) \<Rightarrow>
          (case valid_files P fids w1 of
             (vs, eff2, w2) \<Rightarrow> (v @ vs, eff1 @ eff2, w2)))"

text \<open>Lines 78-108: \<open>message_parts\<close> as it stands before the send.\<close>

definition message_parts ::
  "'w env \<Rightarrow> string \<Rightarrow> jval list option \<Rightarrow> 'w \<Rightarrow> part list \<times> effect list \<times> 'w" where
  "message_parts P message file_ids w =
     (case file_ids of
        None \<Rightarrow> ([PText message], [], w)
      | Some fids \<Rightarrow>
         (if fids = [] then ([PText message], [], w)
          else
            (case clean_file_ids fids of
               (cleaned, effc) \<Rightarrow>
                 (case valid_files P cleaned w of
                    (vs, effv, w1) \<Rightarrow>
                      (if vs \<noteq> []
                       then ([PText message] @ map PFile vs,
                             [Print DebugProcessing] @ effc @ effv
                               @ [Print (DebugAttached (length vs))], w1)
                       else ([PText message],
                             [Print DebugProcessing] @ effc @ effv
                               @ [Print DebugNoValid], w1))))))"

text \<open>
  Lines 112-114: what the \<open>try\<close> yields for an outcome of \<open>chat.send_message\<close>. A
  response is returned by reading \<open>response.text\<close>, which may raise in its turn.
\<close>

fun send_outcome :: "exn + gresponse \<Rightarrow> exn + string" where
  "send_outcome (Inl e) = Inl e"
| "send_outcome (Inr response) = response_text response"

text \<open>Line 113, printed once \<open>chat.send_message\<close> has returned and before
  \<open>response.text\<close> is read.\<close>

fun received :: "exn + gresponse \<Rightarrow> effect list" where
  "received (Inl e) = []"
| "received (Inr response) = [Print DebugReceived]"

text \<open>Lines 57-114: the body of the \<open>try\<close>.\<close>

definition ask_question_try ::
  "'w env \<Rightarrow> string \<Rightarrow> jval list \<Rightarrow> jval list option \<Rightarrow> 'w \<Rightarrow> (exn + string) \<times> effect list \<times> 'w" where
  "ask_question_try P message history file_ids w =
     (let eff0 = [Print (DebugAskQuestion message file_ids)];
          (r1, w1) = genai_GenerativeModel P model_name system_instruction w;
          eff1 = eff0 @ [NewModel model_name system_instruction r1]
      in case r1 of
           Some e \<Rightarrow> (Inl e, eff1, w1)
         | None \<Rightarrow>
            (case gemini_history history of
               Inl e \<Rightarrow> (Inl e, eff1, w1)
             | Inr gh \<Rightarrow>
                (let (r2, w2) = start_chat P gh w1;
                     eff2 = eff1 @ [StartChat gh r2]
                 in case r2 of
                      Some e \<Rightarrow> (Inl e, eff2, w2)
                    | None \<Rightarrow>
                       (let (ps, eff3, w3) = message_parts P message file_ids w2;
                            (r4, w4) = send_message P ps w3;
                            eff4 = eff2 @ eff3 @ [Print DebugSending, SendMessage ps r4]
                                     @ received r4
                        in (send_outcome r4, eff4, w4)))))"

text \<open>Lines 56-120: the \<open>except Exception\<close> handler prints and re-raises.\<close>

definition ask_question ::
  "'w env \<Rightarrow> string \<Rightarrow> jval list \<Rightarrow> jval list option \<Rightarrow> 'w \<Rightarrow> (exn + string) \<times> effect list \<times> 'w" where
  "ask_question P message history file_ids w =
     (case ask_question_try P message history file_ids w of
        (Inl e, effs, w1) \<Rightarrow>
          (Inl e, effs @ [Print (Traceback e), Print (CriticalError (exn_str e))], w1)
      | (Inr text, effs, w1) \<Rightarrow> (Inr text, effs, w1))"

section \<open>gemini_service.py: GeminiService.delete_file\<close>

definition delete_file :: "'w env \<Rightarrow> string \<Rightarrow> 'w \<Rightarrow> (exn + unit) \<times> effect list \<times> 'w" where
  "delete_file P fid w =
     (case genai_delete_file P fid w of
        (Some e, w1) \<Rightarrow>
          (Inl e, [Print (DebugDeleting fid), DeleteCall fid (Some e),
                   Print (ErrorDeleting fid (exn_str e))], w1)
      | (None, w1) \<Rightarrow> (Inr (), [Print (DebugDeleting fid), DeleteCall fid None], w1))"

section \<open>main.py: the endpoints\<close>

text \<open>
  What leaves an endpoint function when it does not return: an \<open>HTTPException\<close> with
  its status code and detail, or any other exception, which the endpoint did not handle.
\<close>

datatype raised = HTTPException nat string | Unhandled exn

text \<open>What \<open>view_file\<close> returns: a dict, serialised as JSON, or a \<open>FileResponse\<close> on
  a path.\<close>

datatype response = JsonResponse jval | FileResponse string

definition chat :: "'w env \<Rightarrow> ChatRequest \<Rightarrow> 'w \<Rightarrow> (raised + jval) \<times> effect list \<times> 'w" where
  "chat P req w =
     (case ask_question P (req_message req) (req_history req) (req_file_ids req) w of
        (Inl e, effs, w1) \<Rightarrow> (Inl (Unhandled e), effs, w1)
      | (Inr text, effs, w1) \<Rightarrow> (Inr (JObj [(''response'', JStr text)]), effs, w1))"

definition delete_file_endpoint ::
  "'w env \<Rightarrow> string \<Rightarrow> 'w \<Rightarrow> (raised + jval) \<times> effect list \<times> 'w" where
  "delete_file_endpoint P fid w =
     (case delete_file P fid w of
        (Inl e, effs, w1) \<Rightarrow> (Inl (HTTPException 500 (exn_str e)), effs, w1)
      | (Inr u, effs, w1) \<Rightarrow>
          (Inr (JObj [(''message'', JStr (''File '' @ fid @ '' deleted successfully''))]),
           effs, w1))"





section \<open>Reading a trace\<close>

fun get_file_call :: "effect \<Rightarrow> (jval \<times> (exn + gfile)) list" where
  "get_file_call (GetFile fid r) = [(fid, r)]"
| "get_file_call e = []"

text \<open>The calls of \<open>genai.get_file\<close> in a trace, in order, each with its outcome.\<close>

definition get_file_calls :: "effect list \<Rightarrow> (jval \<times> (exn + gfile)) list" where
  "get_file_calls effs = concat (map get_file_call effs)"

fun active_handle :: "jval \<times> (exn + gfile) \<Rightarrow> gfile list" where
  "active_handle (fid, Inr f) = (if gf_state_name f = ''ACTIVE'' then [f] else [])"
| "active_handle (fid, Inl e) = []"

text \<open>The handles that the provider returned with state ACTIVE, in call order.\<close>

definition active_handles :: "(jval \<times> (exn + gfile)) list \<Rightarrow> gfile list" where
  "active_handles calls = concat (map active_handle calls)"

text \<open>The line that reports the drop of a reference, for a call that did not return
  an ACTIVE handle.\<close>

fun drop_line :: "jval \<times> (exn + gfile) \<Rightarrow> log_line list" where
  "drop_line (fid, Inl e) = [ErrorCouldNotGet fid (exn_str e)]"
| "drop_line (fid, Inr f) =
     (if gf_state_name f = ''ACTIVE'' then []
      else [WarningNotActive (gf_name f) (gf_state_name f)])"

fun drop_report :: "effect \<Rightarrow> log_line list" where
  "drop_report (Print (WarningNotActive n s)) = [WarningNotActive n s]"
| "drop_report (Print (ErrorCouldNotGet fid m)) = [ErrorCouldNotGet fid m]"
| "drop_report e = []"

text \<open>The WARNING and ERROR lines of the resolution loop in a trace, in order.\<close>

definition drop_reports :: "effect list \<Rightarrow> log_line list" where
  "drop_reports effs = concat (map drop_report effs)"

fun part_file :: "part \<Rightarrow> gfile list" where
  "part_file (PFile f) = [f]"
| "part_file (PText s) = []"

text \<open>The file handles among the parts of a turn, in order.\<close>

definition attached :: "part list \<Rightarrow> gfile list" where
  "attached ps = concat (map part_file ps)"

text \<open>The references of a request: \<open>file_ids\<close> may be \<open>None\<close>.\<close>

fun refs_of :: "jval list option \<Rightarrow> jval list" where
  "refs_of None = []"
| "refs_of (Some fids) = fids"

text \<open>What the \<open>except\<close> handler of \<open>ask_question\<close> prints for an outcome.\<close>

fun failure_report :: "exn + string \<Rightarrow> effect list" where
  "failure_report (Inl e) = [Print (Traceback e), Print (CriticalError (exn_str e))]"
| "failure_report (Inr text) = []"

text \<open>What \<open>upload_file\<close> returns for an outcome of the provider's upload.\<close>

fun upload_outcome ::
  "string option \<Rightarrow> string \<Rightarrow> exn + gfile \<Rightarrow> exn + FileUploadResponse" where
  "upload_outcome fname mt (Inl e) = Inl e"
| "upload_outcome fname mt (Inr g) = make_response fname mt g"

fun is_provider_send :: "effect \<Rightarrow> bool" where
  "is_provider_send (SendMessage ps r) = True"
| "is_provider_send e = False"



section \<open>Concrete environments\<close>

text \<open>
  A small world for running the model: the local store is the list of files written so
  far, inside a directory \<open>uploads\<close> that exists (and with it the paths \<open>uploads/.\<close>
  and \<open>uploads/..\<close>, which name directories). The provider knows two ACTIVE files, one
  file still PROCESSING, and nothing else.
\<close>

definition demo_dirs :: "string list" where
  "demo_dirs = [''uploads'', ''uploads/.'', ''uploads/..'']"

definition not_a_file :: exn where
  "not_a_file = Exn ''RuntimeError'' ''File at path is not a file.''"

definition does_not_exist :: exn where
  "does_not_exist = Exn ''RuntimeError'' ''File at path does not exist.''"

definition demo_response :: gresponse where
  "demo_response = GResponse (Inr ''Summary [page 1]'')"

definition active_file :: gfile where
  "active_file = \<lparr>gf_name = ''files/abc123'', gf_uri = ''https://g/v1beta/files/abc123'',
                   gf_state_name = ''ACTIVE''\<rparr>"

definition pending_file :: gfile where
  "pending_file = \<lparr>gf_name = ''files/pend1'', gf_uri = ''https://g/v1beta/files/pend1'',
                    gf_state_name = ''PROCESSING''\<rparr>"

definition second_file :: gfile where
  "second_file = \<lparr>gf_name = ''files/xyz789'', gf_uri = ''https://g/v1beta/files/xyz789'',
                   gf_state_name = ''ACTIVE''\<rparr>"

definition not_found :: exn where
  "not_found = Exn ''NotFound'' ''404 File not found''"

definition demo_env :: "(string \<times> bytes) list env" where
  "demo_env =
     \<lparr>os_path_exists = (\<lambda>p w. p \<in> set (demo_dirs @ map fst w)),
      os_makedirs = (\<lambda>p w. (None, w)),
      open_wb_write = (\<lambda>p c w. (None, (p, c) # w)),
      genai_upload_file = (\<lambda>c d m w. (Inr active_file, w)),
      genai_GenerativeModel = (\<lambda>n s w. (None, w)),
      start_chat = (\<lambda>h w. (None, w)),
      genai_get_file = (\<lambda>fid w.
         (if fid = JStr ''files/abc123'' then Inr active_file
          else if fid = JStr ''files/xyz789'' then Inr second_file
          else if fid = JStr ''files/pend1'' then Inr pending_file
          else Inl not_found, w)),
      send_message = (\<lambda>ps w. (Inr demo_response, w)),
      genai_delete_file = (\<lambda>fid w. (Some not_found, w)),
      read_file = (\<lambda>p w.
         (case map_of w p of
            Some content \<Rightarrow> Inr content
          | None \<Rightarrow> if p \<in> set demo_dirs then Inl not_a_file else Inl does_not_exist))\<rparr>"



definition quota_error :: exn where
  "quota_error = Exn ''ResourceExhausted'' ''429 quota exceeded''"

text \<open>The same world with a provider that refuses to generate.\<close>

definition quota_env :: "(string \<times> bytes) list env" where
  "quota_env = demo_env\<lparr>send_message := (\<lambda>ps w. (Inl quota_error, w))\<rparr>"

definition blocked_error :: exn where
  "blocked_error = Exn ''ValueError'' ''The response holds no valid part.''"

text \<open>The same world with a provider whose reply holds no text.\<close>

definition blocked_env :: "(string \<times> bytes) list env" where
  "blocked_env = demo_env\<lparr>send_message := (\<lambda>ps w. (Inr (GResponse (Inl blocked_error)), w))\<rparr>"

definition two_turns :: "jval list" where
  "two_turns = [JObj [(''role'', JStr ''user''), (''content'', JStr ''hi'')],
                JObj [(''role'', JStr ''assistant''), (''content'', JStr ''hello'')]]"

definition two_turns_history :: "turn list" where
  "two_turns_history = [\<lparr>turn_role = ''user'', turn_parts = [JStr ''hi'']\<rparr>,
                        \<lparr>turn_role = ''model'', turn_parts = [JStr ''hello'']\<rparr>]"

definition malformed_history :: "jval list" where
  "malformed_history = [JObj [(''role'', JStr ''user'')]]"

definition report_pdf :: UploadFile where
  "report_pdf = \<lparr>uf_filename = Some ''report.pdf'', uf_content_type = Some ''application/pdf'',
                  uf_content = [37, 80, 68, 70]\<rparr>"




definition summarize_req :: ChatRequest where
  "summarize_req = \<lparr>req_message = ''Summarize page 1'', req_history = [],
                     req_file_ids = Some [JStr ''files/gone'']\<rparr>"

section \<open>String lemmas\<close>

lemma split_scan_nonempty: "split_scan sep piece s \<noteq> []"
  by (induction sep piece s rule: split_scan.induct) auto

lemma split_scan_no_sep:
  "\<not> contains sep s \<Longrightarrow> split_scan sep piece s = [rev piece @ s]"
  by (induction s arbitrary: piece) auto

lemma contains_files_append: "contains ''/files/'' (pre @ ''/files/'' @ ident)"
  by (induction pre) (auto simp: startswith_def)

text \<open>An occurrence of the separator that starts inside \<open>pre\<close> and runs into the final
  separator would need \<open>pre\<close> to end in \<open>/files\<close>.\<close>

lemma match_inside_prefix:
  assumes m: "startswith (pre @ ''/files/'' @ ident) ''/files/''"
    and ne: "pre \<noteq> []" and ns: "\<not> suffix ''/files'' pre"
  shows "7 \<le> length pre"
proof (rule ccontr)
  assume "\<not> 7 \<le> length pre"
  then have "length pre < 7" by simp
  then consider "length pre = 0" | "length pre = 1" | "length pre = 2" | "length pre = 3"
    | "length pre = 4" | "length pre = 5" | "length pre = 6" by linarith
  then show False
  proof cases
    case 1 with ne show False by simp
  next
    case 2
    then obtain a where "pre = [a]"
      by (auto simp: length_Suc_conv numeral_eq_Suc)
    with m show False by (auto simp: startswith_def)
  next
    case 3
    then obtain a b where "pre = [a, b]"
      by (auto simp: length_Suc_conv numeral_eq_Suc)
    with m show False by (auto simp: startswith_def)
  next
    case 4
    then obtain a b c where "pre = [a, b, c]"
      by (auto simp: length_Suc_conv numeral_eq_Suc)
    with m show False by (auto simp: startswith_def)
  next
    case 5
    then obtain a b c d where "pre = [a, b, c, d]"
      by (auto simp: length_Suc_conv numeral_eq_Suc)
    with m show False by (auto simp: startswith_def)
  next
    case 6
    then obtain a b c d e where "pre = [a, b, c, d, e]"
      by (auto simp: length_Suc_conv numeral_eq_Suc)
    with m show False by (auto simp: startswith_def)
  next
    case 7
    then obtain a b c d e f where "pre = [a, b, c, d, e, f]"
      by (auto simp: length_Suc_conv numeral_eq_Suc)
    with m ns show False by (auto simp: startswith_def)
  qed
qed

lemma split_scan_last:
  "\<not> contains ''/files/'' ident \<Longrightarrow> \<not> suffix ''/files'' pre \<Longrightarrow>
   last (split_scan ''/files/'' piece (pre @ ''/files/'' @ ident)) = ident"
proof (induction "length pre" arbitrary: pre piece rule: less_induct)
  case less
  show ?case
  proof (cases pre)
    case Nil
    then show ?thesis using less.prems(1)
      by (simp add: startswith_def split_scan_no_sep)
  next
    case (Cons c pre')
    show ?thesis
    proof (cases "startswith (pre @ ''/files/'' @ ident) ''/files/''")
      case True
      have len: "7 \<le> length pre"
        using match_inside_prefix [OF True] Cons less.prems(2) by simp
      then have len': "6 \<le> length pre'" using Cons by simp
      have ns: "\<not> suffix ''/files'' (drop 6 pre')"
      proof
        assume "suffix ''/files'' (drop 6 pre')"
        then have "suffix ''/files'' pre'"
          using suffix_drop suffix_order.trans by blast
        then have "suffix ''/files'' pre" using Cons by (simp add: suffix_Cons)
        with less.prems(2) show False by simp
      qed
      have "length (drop 6 pre') < length pre" using Cons by simp
      from less.hyps [OF this less.prems(1) ns, of "[]"]
      have ih: "last (split_scan ''/files/'' [] (drop 6 pre' @ ''/files/'' @ ident)) = ident" .
      have "split_scan ''/files/'' piece (pre @ ''/files/'' @ ident)
            = rev piece # split_scan ''/files/'' [] (drop 6 pre' @ ''/files/'' @ ident)"
        using True Cons len' by (simp add: numeral_eq_Suc)
      then show ?thesis using ih split_scan_nonempty by simp
    next
      case False
      have ns: "\<not> suffix ''/files'' pre'"
        using less.prems(2) Cons by (simp add: suffix_Cons)
      have "length pre' < length pre" using Cons by simp
      from less.hyps [OF this less.prems(1) ns, of "c # piece"]
      have ih: "last (split_scan ''/files/'' (c # piece) (pre' @ ''/files/'' @ ident)) = ident" .
      have "split_scan ''/files/'' piece (pre @ ''/files/'' @ ident)
            = split_scan ''/files/'' (c # piece) (pre' @ ''/files/'' @ ident)"
        using False Cons by simp
      then show ?thesis using ih by simp
    qed
  qed
qed

lemma clean_id_not_uri: "\<not> is_file_uri (clean_id s)"
  by (simp add: is_file_uri_def clean_id_def startswith_def)

section \<open>The resolution loop, the call and the upload, case by case\<close>

lemma get_one_calls:
  "get_one P fid w = (v, effs, w') \<Longrightarrow>
   \<exists>r. get_file_calls effs = [(fid, r)] \<and> v = active_handle (fid, r)
      \<and> drop_reports effs = drop_line (fid, r)"
  by (auto simp: get_one_def get_file_calls_def drop_reports_def
           split: prod.splits sum.splits if_splits)

lemma get_one_effects:
  "get_one P fid w = (v, effs, w') \<Longrightarrow> e \<in> set effs \<Longrightarrow>
   (\<exists>l. e = Print l) \<or> (\<exists>f r. e = GetFile f r)"
  by (auto simp: get_one_def split: prod.splits sum.splits if_splits)

lemma get_file_calls_simps [simp]:
  "get_file_calls [] = []"
  "get_file_calls (e # es) = get_file_call e @ get_file_calls es"
  by (simp_all add: get_file_calls_def)

lemma drop_reports_simps [simp]:
  "drop_reports [] = []"
  "drop_reports (e # es) = drop_report e @ drop_reports es"
  by (simp_all add: drop_reports_def)

lemma active_handles_simps [simp]:
  "active_handles [] = []"
  "active_handles (c # cs) = active_handle c @ active_handles cs"
  by (simp_all add: active_handles_def)

lemma get_file_calls_append [simp]:
  "get_file_calls (a @ b) = get_file_calls a @ get_file_calls b"
  by (simp add: get_file_calls_def)

lemma drop_reports_append [simp]:
  "drop_reports (a @ b) = drop_reports a @ drop_reports b"
  by (simp add: drop_reports_def)

lemma active_handles_append [simp]:
  "active_handles (a @ b) = active_handles a @ active_handles b"
  by (simp add: active_handles_def)

lemma valid_files_calls:
  "valid_files P fids w = (vs, effs, w') \<Longrightarrow>
   map fst (get_file_calls effs) = fids \<and> vs = active_handles (get_file_calls effs)
   \<and> drop_reports effs = concat (map drop_line (get_file_calls effs))"
proof (induction fids arbitrary: w vs effs w')
  case Nil
  then show ?case by (simp add: get_file_calls_def active_handles_def drop_reports_def)
next
  case (Cons fid fids)
  obtain v e1 w1 where g: "get_one P fid w = (v, e1, w1)" by (cases "get_one P fid w")
  obtain vs2 e2 w2 where r: "valid_files P fids w1 = (vs2, e2, w2)"
    by (cases "valid_files P fids w1")
  from Cons.prems g r have eq: "vs = v @ vs2" "effs = e1 @ e2" by simp_all
  from get_one_calls [OF g] obtain res where
    one: "get_file_calls e1 = [(fid, res)]" "v = active_handle (fid, res)"
         "drop_reports e1 = drop_line (fid, res)" by blast
  from Cons.IH [OF r] have ih: "map fst (get_file_calls e2) = fids"
    "vs2 = active_handles (get_file_calls e2)"
    "drop_reports e2 = concat (map drop_line (get_file_calls e2))" by simp_all
  show ?case using eq one ih by (simp add: active_handles_def)
qed

lemma valid_files_effects:
  "valid_files P fids w = (vs, effs, w') \<Longrightarrow> e \<in> set effs \<Longrightarrow>
   (\<exists>l. e = Print l) \<or> (\<exists>f r. e = GetFile f r)"
proof (induction fids arbitrary: w vs effs w')
  case Nil
  then show ?case by simp
next
  case (Cons fid fids)
  obtain v e1 w1 where g: "get_one P fid w = (v, e1, w1)" by (cases "get_one P fid w")
  obtain vs2 e2 w2 where r: "valid_files P fids w1 = (vs2, e2, w2)"
    by (cases "valid_files P fids w1")
  from Cons.prems(1) g r have "effs = e1 @ e2" by simp
  with Cons.prems(2) have "e \<in> set e1 \<or> e \<in> set e2" by simp
  then show ?case using get_one_effects [OF g] Cons.IH [OF r] by blast
qed

lemma clean_effects_calls:
  "get_file_calls (map (\<lambda>fid. Print (clean_log fid)) fids) = []"
  by (induction fids) (simp_all add: get_file_calls_def)

lemma clean_log_no_report: "drop_report (Print (clean_log fid)) = []"
  by (cases fid) simp_all

lemma clean_effects_reports:
  "drop_reports (map (\<lambda>fid. Print (clean_log fid)) fids) = []"
  by (induction fids) (simp_all add: drop_reports_def clean_log_no_report)

lemma message_parts_calls:
  assumes "message_parts P message file_ids w = (ps, effs, w')"
  shows "ps = PText message # map PFile (active_handles (get_file_calls effs))"
    and "map fst (get_file_calls effs) = map clean_fid (refs_of file_ids)"
    and "drop_reports effs = concat (map drop_line (get_file_calls effs))"
proof -
  have "ps = PText message # map PFile (active_handles (get_file_calls effs))
      \<and> map fst (get_file_calls effs) = map clean_fid (refs_of file_ids)
      \<and> drop_reports effs = concat (map drop_line (get_file_calls effs))"
  proof (cases file_ids)
    case None
    with assms show ?thesis
      by (simp add: message_parts_def get_file_calls_def active_handles_def drop_reports_def)
  next
    case (Some fids)
    show ?thesis
    proof (cases "fids = []")
      case True
      with Some assms show ?thesis
        by (simp add: message_parts_def get_file_calls_def active_handles_def drop_reports_def)
    next
      case False
      obtain vs effv w1 where v: "valid_files P (map clean_fid fids) w = (vs, effv, w1)"
        by (cases "valid_files P (map clean_fid fids) w")
      note vc = valid_files_calls [OF v]
      have one: "get_file_calls [Print l] = []" "drop_reports [Print DebugProcessing] = []"
        "drop_reports [Print (DebugAttached n)] = []" "drop_reports [Print DebugNoValid] = []"
        for l n
        by (simp_all add: get_file_calls_def drop_reports_def)
      show ?thesis
      proof (cases "vs = []")
        case True
        with assms Some False v have
          "ps = [PText message]"
          "effs = [Print DebugProcessing] @ map (\<lambda>fid. Print (clean_log fid)) fids @ effv
                   @ [Print DebugNoValid]"
          by (simp_all add: message_parts_def clean_file_ids_def)
        then show ?thesis using vc True Some
          by (simp add: one clean_effects_calls clean_effects_reports)
      next
        case nonempty: False
        with assms Some False v have
          "ps = PText message # map PFile vs"
          "effs = [Print DebugProcessing] @ map (\<lambda>fid. Print (clean_log fid)) fids @ effv
                   @ [Print (DebugAttached (length vs))]"
          by (simp_all add: message_parts_def clean_file_ids_def)
        then show ?thesis using vc Some
          by (simp add: one clean_effects_calls clean_effects_reports)
      qed
    qed
  qed
  then show "ps = PText message # map PFile (active_handles (get_file_calls effs))"
    and "map fst (get_file_calls effs) = map clean_fid (refs_of file_ids)"
    and "drop_reports effs = concat (map drop_line (get_file_calls effs))" by simp_all
qed

lemma message_parts_effects:
  assumes "message_parts P message file_ids w = (ps, effs, w')" and "e \<in> set effs"
  shows "(\<exists>l. e = Print l) \<or> (\<exists>f r. e = GetFile f r)"
proof (cases "file_ids = None \<or> file_ids = Some []")
  case True
  with assms show ?thesis by (auto simp: message_parts_def)
next
  case False
  then obtain fids where f: "file_ids = Some fids" "fids \<noteq> []" by auto
  obtain vs effv w1 where v: "valid_files P (map clean_fid fids) w = (vs, effv, w1)"
    by (cases "valid_files P (map clean_fid fids) w")
  from assms(1) f v have
    "set effs \<subseteq> {Print DebugProcessing, Print (DebugAttached (length vs)), Print DebugNoValid}
        \<union> (\<lambda>fid. Print (clean_log fid)) ` set fids \<union> set effv"
    by (auto simp: message_parts_def clean_file_ids_def split: if_splits)
  with assms(2) have "(\<exists>l. e = Print l) \<or> e \<in> set effv" by auto
  then show ?thesis using valid_files_effects [OF v] by blast
qed





lemma attached_parts [simp]: "attached (PText m # map PFile fs) = fs"
  by (induction fs) (simp_all add: attached_def)

lemma ask_question_run:
  assumes "ask_question P message history file_ids w = (r, effs, w')"
  obtains
    (model_failed) e w1 where
      "genai_GenerativeModel P model_name system_instruction w = (Some e, w1)"
      "r = Inl e"
      "effs = [Print (DebugAskQuestion message file_ids),
               NewModel model_name system_instruction (Some e)] @ failure_report r"
  | (history_failed) e w1 where
      "genai_GenerativeModel P model_name system_instruction w = (None, w1)"
      "gemini_history history = Inl e" "r = Inl e"
      "effs = [Print (DebugAskQuestion message file_ids),
               NewModel model_name system_instruction None] @ failure_report r"
  | (chat_failed) gh e w1 w2 where
      "genai_GenerativeModel P model_name system_instruction w = (None, w1)"
      "gemini_history history = Inr gh" "start_chat P gh w1 = (Some e, w2)" "r = Inl e"
      "effs = [Print (DebugAskQuestion message file_ids),
               NewModel model_name system_instruction None,
               StartChat gh (Some e)] @ failure_report r"
  | (sent) gh w1 w2 ps effm w3 res w4 where
      "genai_GenerativeModel P model_name system_instruction w = (None, w1)"
      "gemini_history history = Inr gh" "start_chat P gh w1 = (None, w2)"
      "message_parts P message file_ids w2 = (ps, effm, w3)"
      "send_message P ps w3 = (res, w4)"
      "r = send_outcome res"
      "effs = [Print (DebugAskQuestion message file_ids),
               NewModel model_name system_instruction None,
               StartChat gh None] @ effm @ [Print DebugSending, SendMessage ps res]
              @ received res @ failure_report r"
  using assms
  unfolding ask_question_def ask_question_try_def Let_def
  by (auto split: prod.splits option.splits sum.splits)

lemma message_parts_provider_calls:
  assumes "message_parts P message file_ids w = (ps, effm, w')"
  shows "NewModel n s x \<notin> set effm" and "StartChat g y \<notin> set effm"
    and "SendMessage q z \<notin> set effm" and "filter is_provider_send effm = []"
proof -
  have only: "(\<exists>l. e = Print l) \<or> (\<exists>f r. e = GetFile f r)" if "e \<in> set effm" for e
    using message_parts_effects [OF assms that] .
  show "NewModel n s x \<notin> set effm" using only by blast
  show "StartChat g y \<notin> set effm" using only by blast
  show "SendMessage q z \<notin> set effm" using only by blast
  have "\<not> is_provider_send e" if "e \<in> set effm" for e
    using only [OF that] by auto
  then show "filter is_provider_send effm = []" by (simp add: filter_empty_conv)
qed

lemma failure_report_calls [simp]: "get_file_calls (failure_report r) = []"
  by (cases r) simp_all

lemma received_calls [simp]: "get_file_calls (received res) = []"
  by (cases res) simp_all

lemma received_sends [simp]: "filter is_provider_send (received res) = []"
  by (cases res) simp_all

lemma received_prints: "e \<in> set (received res) \<Longrightarrow> e = Print DebugReceived"
  by (cases res) auto

lemma failure_report_sends [simp]: "filter is_provider_send (failure_report r) = []"
  by (cases r) simp_all

lemma failure_report_prints: "e \<in> set (failure_report r) \<Longrightarrow> \<exists>l. e = Print l"
  by (cases r) auto

lemma upload_file_cases:
  assumes "upload_file P file w = (r, effs, w')"
  obtains
    (mkdir_failed) e where "r = Inl e" "effs = [Makedirs ''uploads'' (Some e)]"
  | (write_failed) e pre where "r = Inl e"
      "pre = [] \<or> pre = [Makedirs ''uploads'' None]"
      "effs = pre @ [WriteFile (local_path (uf_filename file)) (uf_content file) (Some e)]"
  | (uploaded) pre res where
      "pre = [] \<or> pre = [Makedirs ''uploads'' None]"
      "effs = pre @ [WriteFile (local_path (uf_filename file)) (uf_content file) None,
                     Print (DebugSavedLocally (local_path (uf_filename file))),
                     UploadCall (uf_content file) (uf_filename file)
                       (mime_or_default (uf_content_type file)) res]"
      "r = upload_outcome (uf_filename file) (mime_or_default (uf_content_type file)) res"
  using assms
  unfolding upload_file_def Let_def
  by (auto split: prod.splits option.splits sum.splits if_splits)

lemma make_response_fields:
  "make_response fname mt g = Inr resp \<Longrightarrow>
   fname = Some (filename resp) \<and> file_id resp = gf_uri g \<and> uri resp = gf_uri g
   \<and> mime_type resp = mt"
  by (cases fname) auto

lemma upload_outcome_fields:
  "upload_outcome fname mt res = Inr resp \<Longrightarrow>
   \<exists>g. res = Inr g \<and> fname = Some (filename resp) \<and> file_id resp = gf_uri g
      \<and> uri resp = gf_uri g \<and> mime_type resp = mt"
  by (cases res) (auto dest: make_response_fields)

section \<open>Runs in the concrete environments\<close>


lemmas resolve_defs = message_parts_def clean_file_ids_def get_one_def is_file_uri_def
  startswith_def clean_id_def str_split_def



lemma demo_gone_parts:
  "message_parts demo_env ''Summarize page 1'' (Some [JStr ''files/gone'']) [] =
    ([PText ''Summarize page 1''],
     [Print DebugProcessing, Print (DebugRawId (JStr ''files/gone'')),
      GetFile (JStr ''files/gone'') (Inl not_found),
      Print (ErrorCouldNotGet (JStr ''files/gone'') ''404 File not found''),
      Print DebugNoValid], [])"
  by (simp add: resolve_defs demo_env_def not_found_def)

lemma no_refs_parts: "message_parts P message None w = ([PText message], [], w)"
  by (simp add: message_parts_def)

lemma two_turns_converted: "gemini_history two_turns = Inr two_turns_history"
  by (simp add: two_turns_def two_turns_history_def)

lemma malformed_history_raises:
  "gemini_history malformed_history = Inl (Exn ''KeyError'' ''content'')"
  by (simp add: malformed_history_def)

lemma demo_env_calls:
  "genai_GenerativeModel demo_env n s w = (None, w)"
  "start_chat demo_env h w = (None, w)"
  "send_message demo_env ps w = (Inr demo_response, w)"
  by (simp_all add: demo_env_def)

lemma quota_env_calls:
  "genai_GenerativeModel quota_env n s w = (None, w)"
  "start_chat quota_env h w = (None, w)"
  "send_message quota_env ps w = (Inl quota_error, w)"
  by (simp_all add: quota_env_def demo_env_def)

lemma blocked_env_calls:
  "genai_GenerativeModel blocked_env n s w = (None, w)"
  "start_chat blocked_env h w = (None, w)"
  "send_message blocked_env ps w = (Inr (GResponse (Inl blocked_error)), w)"
  by (simp_all add: blocked_env_def demo_env_def)

lemma demo_gone_run:
  "ask_question demo_env ''Summarize page 1'' [] (Some [JStr ''files/gone'']) [] =
    (Inr ''Summary [page 1]'',
     [Print (DebugAskQuestion ''Summarize page 1'' (Some [JStr ''files/gone''])),
      NewModel model_name system_instruction None,
      StartChat [] None,
      Print DebugProcessing,
      Print (DebugRawId (JStr ''files/gone'')),
      GetFile (JStr ''files/gone'') (Inl not_found),
      Print (ErrorCouldNotGet (JStr ''files/gone'') ''404 File not found''),
      Print DebugNoValid,
      Print DebugSending,
      SendMessage [PText ''Summarize page 1''] (Inr demo_response),
      Print DebugReceived], [])"
proof -
  have m: "genai_GenerativeModel demo_env n s w = (None, w)"
    "start_chat demo_env h w = (None, w)"
    "send_message demo_env ps w = (Inr demo_response, w)"
    "genai_get_file demo_env (JStr ''files/gone'') w = (Inl not_found, w)" for n s w h ps
    by (simp_all add: demo_env_def)
  have p: "message_parts demo_env ''Summarize page 1'' (Some [JStr ''files/gone'']) [] =
      ([PText ''Summarize page 1''],
           [Print DebugProcessing, Print (DebugRawId (JStr ''files/gone'')),
            GetFile (JStr ''files/gone'') (Inl not_found),
            Print (ErrorCouldNotGet (JStr ''files/gone'') ''404 File not found''),
            Print DebugNoValid], [])"
    by (simp add: resolve_defs m not_found_def)
  show ?thesis
    unfolding ask_question_def ask_question_try_def Let_def
    by (simp add: m p demo_response_def)
qed

lemma quota_run:
  "ask_question quota_env ''Summarize page 1'' [] (Some [JStr ''files/gone'']) [] =
    (Inl quota_error,
     [Print (DebugAskQuestion ''Summarize page 1'' (Some [JStr ''files/gone''])),
      NewModel model_name system_instruction None,
      StartChat [] None,
      Print DebugProcessing,
      Print (DebugRawId (JStr ''files/gone'')),
      GetFile (JStr ''files/gone'') (Inl not_found),
      Print (ErrorCouldNotGet (JStr ''files/gone'') ''404 File not found''),
      Print DebugNoValid,
      Print DebugSending,
      SendMessage [PText ''Summarize page 1''] (Inl quota_error),
      Print (Traceback quota_error),
      Print (CriticalError ''429 quota exceeded'')], [])"
proof -
  have m: "genai_GenerativeModel quota_env n s w = (None, w)"
    "start_chat quota_env h w = (None, w)"
    "send_message quota_env ps w = (Inl quota_error, w)"
    "genai_get_file quota_env (JStr ''files/gone'') w = (Inl not_found, w)" for n s w h ps
    by (simp_all add: quota_env_def demo_env_def)
  have p: "message_parts quota_env ''Summarize page 1'' (Some [JStr ''files/gone'']) [] =
      ([PText ''Summarize page 1''],
           [Print DebugProcessing, Print (DebugRawId (JStr ''files/gone'')),
            GetFile (JStr ''files/gone'') (Inl not_found),
            Print (ErrorCouldNotGet (JStr ''files/gone'') ''404 File not found''),
            Print DebugNoValid], [])"
    by (simp add: resolve_defs m not_found_def)
  show ?thesis
    unfolding ask_question_def ask_question_try_def Let_def
    by (simp add: m p quota_error_def)
qed

lemma demo_upload_run:
  "upload_file demo_env report_pdf [] =
    (Inr \<lparr>filename = ''report.pdf'', file_id = ''https://g/v1beta/files/abc123'',
           mime_type = ''application/pdf'', uri = ''https://g/v1beta/files/abc123''\<rparr>,
     [WriteFile ''uploads/report.pdf'' [37, 80, 68, 70] None,
      Print (DebugSavedLocally ''uploads/report.pdf''),
      UploadCall [37, 80, 68, 70] (Some ''report.pdf'') ''application/pdf'' (Inr active_file)],
     [(''uploads/report.pdf'', [37, 80, 68, 70])])"
  by (simp add: upload_file_def Let_def demo_env_def demo_dirs_def report_pdf_def local_path_def active_file_def)



section \<open>C1: the resolution step\<close>



section \<open>C2: failures of ask_question\<close>

text \<open>
  C2, as stated, fails: the provider cannot resolve \<open>files/gone\<close>, and the call returns
  the provider's reply.
\<close>

theorem ask_question_unresolved_reference_counterexample:
  "fst (genai_get_file demo_env (JStr ''files/gone'') []) = Inl not_found
   \<and> GetFile (JStr ''files/gone'') (Inl not_found)
       \<in> set (fst (snd (ask_question demo_env ''Summarize page 1'' []
                            (Some [JStr ''files/gone'']) [])))
   \<and> fst (ask_question demo_env ''Summarize page 1'' [] (Some [JStr ''files/gone'']) [])
       = Inr ''Summary [page 1]''"
  unfolding demo_gone_run by (simp add: demo_env_def)

text \<open>
  C2, as amended. The outcome of a call is decided by the first of these that fails: the
  model construction, the conversion of the history, \<open>start_chat\<close>, \<open>send_message\<close>
  and the read of \<open>response.text\<close>; the call then fails with that same exception, and
  with no other. An exception of \<open>get_file\<close> never fails the call: whatever
  \<open>get_file\<close> returns, the outcome is that of the send. Nothing is retried: at most
  one message is sent and at most one \<open>get_file\<close> call is made for each reference.
\<close>

theorem ask_question_failure_sources:
  assumes run: "ask_question P message history file_ids w = (r, effs, w')"
  shows "(\<forall>e w1. genai_GenerativeModel P model_name system_instruction w = (Some e, w1)
            \<longrightarrow> r = Inl e)
       \<and> (\<forall>e w1. genai_GenerativeModel P model_name system_instruction w = (None, w1)
            \<and> gemini_history history = Inl e \<longrightarrow> r = Inl e)
       \<and> (\<forall>e gh w1 w2. genai_GenerativeModel P model_name system_instruction w = (None, w1)
            \<and> gemini_history history = Inr gh
            \<and> start_chat P gh w1 = (Some e, w2) \<longrightarrow> r = Inl e)
       \<and> (\<forall>gh w1 w2 ps effm w3 res w4.
            genai_GenerativeModel P model_name system_instruction w = (None, w1)
            \<and> gemini_history history = Inr gh
            \<and> start_chat P gh w1 = (None, w2)
            \<and> message_parts P message file_ids w2 = (ps, effm, w3)
            \<and> send_message P ps w3 = (res, w4) \<longrightarrow>
            r = send_outcome res \<and> SendMessage ps res \<in> set effs)
       \<and> (\<forall>e. ((\<exists>n s. NewModel n s (Some e) \<in> set effs)
               \<or> (\<exists>gh. StartChat gh (Some e) \<in> set effs)
               \<or> (\<exists>ps. SendMessage ps (Inl e) \<in> set effs)
               \<or> (\<exists>ps. SendMessage ps (Inr (GResponse (Inl e))) \<in> set effs))
              \<longrightarrow> r = Inl e)
       \<and> (\<forall>e. r = Inl e \<longrightarrow>
               ((\<exists>n s. NewModel n s (Some e) \<in> set effs)
                \<or> gemini_history history = Inl e
                \<or> (\<exists>gh. StartChat gh (Some e) \<in> set effs)
                \<or> (\<exists>ps. SendMessage ps (Inl e) \<in> set effs)
                \<or> (\<exists>ps. SendMessage ps (Inr (GResponse (Inl e))) \<in> set effs)))
       \<and> length (filter is_provider_send effs) \<le> 1
       \<and> length (get_file_calls effs) \<le> length (refs_of file_ids)"
  using run
proof (cases rule: ask_question_run)
  case (model_failed e w1)
  then show ?thesis by auto
next
  case (history_failed e w1)
  then show ?thesis by auto
next
  case (chat_failed gh e w1 w2)
  then show ?thesis by auto
next
  case (sent gh w1 w2 ps effm w3 res w4)
  note pc = message_parts_provider_calls [OF sent(4)]
  have n: "length (get_file_calls effm) = length (refs_of file_ids)"
    using message_parts_calls(2) [OF sent(4)] by (metis length_map)
  have prints: "\<exists>l. x = Print l" if "x \<in> set (received res @ failure_report r)" for x
    using that received_prints failure_report_prints by fastforce
  have members: "x \<in> set effs \<longleftrightarrow>
      x = Print (DebugAskQuestion message file_ids)
      \<or> x = NewModel model_name system_instruction None \<or> x = StartChat gh None
      \<or> x \<in> set effm \<or> x = Print DebugSending \<or> x = SendMessage ps res
      \<or> x \<in> set (received res @ failure_report r)" for x
    unfolding sent(7) by auto
  have env: "r = send_outcome res \<and> SendMessage ps res \<in> set effs"
    using sent(6) members by blast
  have fwd: "r = Inl e" if "(\<exists>n s. NewModel n s (Some e) \<in> set effs)
               \<or> (\<exists>gh. StartChat gh (Some e) \<in> set effs)
               \<or> (\<exists>ps. SendMessage ps (Inl e) \<in> set effs)
               \<or> (\<exists>ps. SendMessage ps (Inr (GResponse (Inl e))) \<in> set effs)" for e
  proof -
    from that have "SendMessage ps res = SendMessage ps (Inl e)
        \<or> SendMessage ps res = SendMessage ps (Inr (GResponse (Inl e)))"
      unfolding members using pc prints by fastforce
    then show ?thesis using sent(6) by auto
  qed
  have bwd: "(\<exists>ps. SendMessage ps (Inl e) \<in> set effs)
             \<or> (\<exists>ps. SendMessage ps (Inr (GResponse (Inl e))) \<in> set effs)" if "r = Inl e" for e
  proof (cases res)
    case (Inl e')
    with that sent(6) have "res = Inl e" by simp
    with env show ?thesis by blast
  next
    case (Inr response)
    with that sent(6) have "response_text response = Inl e" by simp
    then have "response = GResponse (Inl e)" by (cases response) simp
    with Inr env show ?thesis by blast
  qed
  have one: "length (filter is_provider_send effs) \<le> 1"
    unfolding sent(7) using pc(4) by simp
  have calls: "length (get_file_calls effs) \<le> length (refs_of file_ids)"
    unfolding sent(7) using n by simp
  show ?thesis
  proof (intro conjI allI impI)
    fix e w1' assume "genai_GenerativeModel P model_name system_instruction w = (Some e, w1')"
    with sent(1) show "r = Inl e" by simp
  next
    fix e w1' assume "genai_GenerativeModel P model_name system_instruction w = (None, w1')
        \<and> gemini_history history = Inl e"
    with sent(2) show "r = Inl e" by simp
  next
    fix e gh' w1' w2' assume "genai_GenerativeModel P model_name system_instruction w = (None, w1')
        \<and> gemini_history history = Inr gh' \<and> start_chat P gh' w1' = (Some e, w2')"
    with sent(1,2,3) show "r = Inl e" by simp
  next
    fix gh' w1' w2' ps' effm' w3' res' w4'
    assume a: "genai_GenerativeModel P model_name system_instruction w = (None, w1')
        \<and> gemini_history history = Inr gh' \<and> start_chat P gh' w1' = (None, w2')
        \<and> message_parts P message file_ids w2' = (ps', effm', w3')
        \<and> send_message P ps' w3' = (res', w4')"
    with sent(1,2,3) have "gh' = gh" "w1' = w1" "w2' = w2" by simp_all
    with a sent(4) have "ps' = ps" "w3' = w3" by simp_all
    with a sent(5) have "res' = res" by simp
    with env \<open>ps' = ps\<close> show "r = send_outcome res'" and "SendMessage ps' res' \<in> set effs"
      by simp_all
  next
    fix e assume "(\<exists>n s. NewModel n s (Some e) \<in> set effs)
               \<or> (\<exists>gh. StartChat gh (Some e) \<in> set effs)
               \<or> (\<exists>ps. SendMessage ps (Inl e) \<in> set effs)
               \<or> (\<exists>ps. SendMessage ps (Inr (GResponse (Inl e))) \<in> set effs)"
    then show "r = Inl e" by (rule fwd)
  next
    fix e assume "r = Inl e"
    from bwd [OF this] show "(\<exists>n s. NewModel n s (Some e) \<in> set effs)
                \<or> gemini_history history = Inl e
                \<or> (\<exists>gh. StartChat gh (Some e) \<in> set effs)
                \<or> (\<exists>ps. SendMessage ps (Inl e) \<in> set effs)
                \<or> (\<exists>ps. SendMessage ps (Inr (GResponse (Inl e))) \<in> set effs)"
      by blast
  next
    show "length (filter is_provider_send effs) \<le> 1" by (rule one)
  next
    show "length (get_file_calls effs) \<le> length (refs_of file_ids)" by (rule calls)
  qed
qed

theorem ask_question_failure_sources_witness:
  "fst (ask_question quota_env ''Summarize page 1'' two_turns None []) = Inl quota_error
   \<and> fst (ask_question demo_env ''Summarize page 1'' malformed_history None [])
       = Inl (Exn ''KeyError'' ''content'')
   \<and> fst (ask_question blocked_env ''Summarize page 1'' two_turns None []) = Inl blocked_error
   \<and> fst (ask_question demo_env ''Summarize page 1'' two_turns (Some [JStr ''files/gone'']) [])
       = Inr ''Summary [page 1]''"
proof -
  let ?q = "ask_question quota_env ''Summarize page 1'' two_turns None []"
  let ?m = "ask_question demo_env ''Summarize page 1'' malformed_history None []"
  let ?b = "ask_question blocked_env ''Summarize page 1'' two_turns None []"
  let ?g = "ask_question demo_env ''Summarize page 1'' two_turns (Some [JStr ''files/gone'']) []"
  have rq: "?q = (fst ?q, fst (snd ?q), snd (snd ?q))" by simp
  have rm: "?m = (fst ?m, fst (snd ?m), snd (snd ?m))" by simp
  have rb: "?b = (fst ?b, fst (snd ?b), snd (snd ?b))" by simp
  have rg: "?g = (fst ?g, fst (snd ?g), snd (snd ?g))" by simp
  have hq: "genai_GenerativeModel quota_env model_name system_instruction [] = (None, [])
      \<and> gemini_history two_turns = Inr two_turns_history
      \<and> start_chat quota_env two_turns_history [] = (None, [])
      \<and> message_parts quota_env ''Summarize page 1'' None [] = ([PText ''Summarize page 1''], [], [])
      \<and> send_message quota_env [PText ''Summarize page 1''] [] = (Inl quota_error, [])"
    by (simp add: quota_env_calls two_turns_converted no_refs_parts)
  note tq = ask_question_failure_sources [OF rq]
  from tq [THEN conjunct2, THEN conjunct2, THEN conjunct2, THEN conjunct1, rule_format, OF hq]
  have q: "fst ?q = Inl quota_error" by simp
  have hm: "genai_GenerativeModel demo_env model_name system_instruction [] = (None, [])
      \<and> gemini_history malformed_history = Inl (Exn ''KeyError'' ''content'')"
    by (simp add: demo_env_calls malformed_history_raises)
  note tm = ask_question_failure_sources [OF rm]
  from tm [THEN conjunct2, THEN conjunct1, rule_format, OF hm]
  have m: "fst ?m = Inl (Exn ''KeyError'' ''content'')" .
  have hb: "genai_GenerativeModel blocked_env model_name system_instruction [] = (None, [])
      \<and> gemini_history two_turns = Inr two_turns_history
      \<and> start_chat blocked_env two_turns_history [] = (None, [])
      \<and> message_parts blocked_env ''Summarize page 1'' None [] = ([PText ''Summarize page 1''], [], [])
      \<and> send_message blocked_env [PText ''Summarize page 1''] []
          = (Inr (GResponse (Inl blocked_error)), [])"
    by (simp add: blocked_env_calls two_turns_converted no_refs_parts)
  note tb = ask_question_failure_sources [OF rb]
  from tb [THEN conjunct2, THEN conjunct2, THEN conjunct2, THEN conjunct1, rule_format, OF hb]
  have b: "fst ?b = Inl blocked_error" by simp
  have hg: "genai_GenerativeModel demo_env model_name system_instruction [] = (None, [])
      \<and> gemini_history two_turns = Inr two_turns_history
      \<and> start_chat demo_env two_turns_history [] = (None, [])
      \<and> message_parts demo_env ''Summarize page 1'' (Some [JStr ''files/gone'']) []
          = ([PText ''Summarize page 1''],
             [Print DebugProcessing, Print (DebugRawId (JStr ''files/gone'')),
              GetFile (JStr ''files/gone'') (Inl not_found),
              Print (ErrorCouldNotGet (JStr ''files/gone'') ''404 File not found''),
              Print DebugNoValid], [])
      \<and> send_message demo_env [PText ''Summarize page 1''] [] = (Inr demo_response, [])"
    by (simp add: demo_env_calls two_turns_converted demo_gone_parts)
  note tg = ask_question_failure_sources [OF rg]
  from tg [THEN conjunct2, THEN conjunct2, THEN conjunct2, THEN conjunct1, rule_format, OF hg]
  have g: "fst ?g = Inr ''Summary [page 1]''" by (simp add: demo_response_def)
  show ?thesis using q m b g by simp
qed

section \<open>C3: the local copy\<close>




section \<open>C4: failures of the chat endpoint\<close>

text \<open>
  C4. \<open>chat\<close> calls \<open>ask_question\<close> outside any \<open>try\<close>: a failure of the adapter leaves the
  endpoint as the exception itself, never as an \<open>HTTPException\<close> whose detail is the
  message. Here the provider refuses to generate. The sibling endpoint \<open>delete_file\<close>
  wraps the adapter's failure in \<open>HTTPException(status_code=500, detail=str(e))\<close>.
\<close>

theorem chat_failure_unhandled:
  "fst (chat P req w) \<noteq> Inl (HTTPException code detail)
   \<and> fst (chat quota_env summarize_req []) = Inl (Unhandled quota_error)
   \<and> fst (delete_file_endpoint demo_env ''files/gone'' [])
       = Inl (HTTPException 500 (exn_str not_found))"
proof -
  have a: "fst (chat P req w) \<noteq> Inl (HTTPException code detail)"
    by (simp add: chat_def split: prod.splits sum.splits)
  have b: "fst (chat quota_env summarize_req []) = Inl (Unhandled quota_error)"
    by (simp add: chat_def summarize_req_def quota_run)
  have c: "fst (delete_file_endpoint demo_env ''files/gone'' [])
       = Inl (HTTPException 500 (exn_str not_found))"
    by (simp add: delete_file_endpoint_def delete_file_def demo_env_def)
  show ?thesis using a b c by blast
qed

section \<open>C5: file_id and uri\<close>

text \<open>
  C5. A response returned by \<open>upload_file\<close> carries a \<open>file_id\<close> and a \<open>uri\<close>
  that are equal: both are the \<open>uri\<close> of the handle the provider returned.
\<close>

theorem upload_file_id_is_uri:
  assumes "upload_file P file w = (Inr resp, effs, w')"
  shows "file_id resp = uri resp
       \<and> (\<exists>c d m g. UploadCall c d m (Inr g) \<in> set effs \<and> uri resp = gf_uri g)"
  using assms
proof (cases rule: upload_file_cases)
  case (mkdir_failed e)
  then show ?thesis by simp
next
  case (write_failed e pre)
  then show ?thesis by simp
next
  case (uploaded pre res)
  from upload_outcome_fields [OF uploaded(3) [symmetric]] obtain g where
    "res = Inr g" "file_id resp = gf_uri g" "uri resp = gf_uri g" by blast
  then show ?thesis using uploaded(2) by auto
qed

theorem upload_file_id_is_uri_witness:
  "file_id \<lparr>filename = ''report.pdf'', file_id = ''https://g/v1beta/files/abc123'',
             mime_type = ''application/pdf'', uri = ''https://g/v1beta/files/abc123''\<rparr>
   = uri \<lparr>filename = ''report.pdf'', file_id = ''https://g/v1beta/files/abc123'',
           mime_type = ''application/pdf'', uri = ''https://g/v1beta/files/abc123''\<rparr>
   \<and> fst (upload_file demo_env report_pdf []) =
       Inr \<lparr>filename = ''report.pdf'', file_id = ''https://g/v1beta/files/abc123'',
             mime_type = ''application/pdf'', uri = ''https://g/v1beta/files/abc123''\<rparr>"
proof -
  from upload_file_id_is_uri [OF demo_upload_run]
  have "file_id \<lparr>filename = ''report.pdf'', file_id = ''https://g/v1beta/files/abc123'',
             mime_type = ''application/pdf'', uri = ''https://g/v1beta/files/abc123''\<rparr>
   = uri \<lparr>filename = ''report.pdf'', file_id = ''https://g/v1beta/files/abc123'',
           mime_type = ''application/pdf'', uri = ''https://g/v1beta/files/abc123''\<rparr>"
    by (rule conjunct1)
  then show ?thesis unfolding demo_upload_run by simp
qed

section \<open>C6: normalization is idempotent\<close>

text \<open>
  C6. Normalizing a file reference twice gives the same string as normalizing it once,
  for every string.
\<close>

theorem clean_fid_idempotent: "clean_fid (clean_fid (JStr x)) = clean_fid (JStr x)"
  by (simp add: clean_id_not_uri)

section \<open>C7: normalizing a URI\<close>

text \<open>
  C7, as stated, fails on a URI whose \<open>/files/\<close> segment follows another one directly:
  the scan consumes the first occurrence, and the second, which shares its slash, is not
  found.
\<close>

theorem clean_fid_overlap_counterexample:
  "\<not> contains ''/files/'' ''abc''
   \<and> clean_fid (JStr (''http://x/files'' @ ''/files/'' @ ''abc'')) = JStr ''files/files/abc''
   \<and> clean_fid (JStr (''http://x/files'' @ ''/files/'' @ ''abc'')) \<noteq> JStr (''files/'' @ ''abc'')"
  by (simp add: is_file_uri_def startswith_def clean_id_def str_split_def)

text \<open>
  C7, as amended. A reference \<open>http\<close> + rest + \<open>/files/\<close> + ident, where rest does not
  end in \<open>/files\<close> and ident contains no further \<open>/files/\<close>, is normalized to
  \<open>files/\<close> + ident. A string that does not both start with \<open>http\<close> and contain
  \<open>/files/\<close>, and a reference that is not a string, are returned unchanged.
\<close>

theorem clean_fid_file_uri:
  "(\<not> suffix ''/files'' rest \<and> \<not> contains ''/files/'' ident \<longrightarrow>
      clean_fid (JStr (''http'' @ rest @ ''/files/'' @ ident)) = JStr (''files/'' @ ident))
   \<and> (\<not> is_file_uri s \<longrightarrow> clean_fid (JStr s) = JStr s)
   \<and> ((\<forall>s. v \<noteq> JStr s) \<longrightarrow> clean_fid v = v)"
proof (intro conjI impI)
  assume a: "\<not> suffix ''/files'' rest \<and> \<not> contains ''/files/'' ident"
  have ns: "\<not> suffix ''/files'' (''http'' @ rest)"
  proof
    assume "suffix ''/files'' (''http'' @ rest)"
    then show False using a by (auto simp: suffix_append suffix_Cons)
  qed
  have u: "is_file_uri (''http'' @ rest @ ''/files/'' @ ident)"
    using contains_files_append [of "''http'' @ rest" ident]
    by (simp add: is_file_uri_def startswith_def)
  have "last (split_scan ''/files/'' [] ((''http'' @ rest) @ ''/files/'' @ ident)) = ident"
    using a ns by (intro split_scan_last) simp_all
  then have "clean_id (''http'' @ rest @ ''/files/'' @ ident) = ''files/'' @ ident"
    by (simp add: clean_id_def str_split_def)
  with u show "clean_fid (JStr (''http'' @ rest @ ''/files/'' @ ident)) = JStr (''files/'' @ ident)"
    by simp
next
  assume "\<not> is_file_uri s"
  then show "clean_fid (JStr s) = JStr s" by simp
next
  assume "\<forall>s. v \<noteq> JStr s"
  then show "clean_fid v = v" by (cases v) simp_all
qed

theorem clean_fid_file_uri_witness:
  "clean_fid (JStr ''https://g/v1beta/files/abc123'') = JStr ''files/abc123''
   \<and> clean_fid (JStr ''files/abc123'') = JStr ''files/abc123''
   \<and> clean_fid (JNum 7) = JNum 7"
proof -
  note th = clean_fid_file_uri [of "''s://g/v1beta''" "''abc123''" "''files/abc123''" "JNum 7"]
  have h1: "\<not> suffix ''/files'' ''s://g/v1beta'' \<and> \<not> contains ''/files/'' ''abc123''"
    by (simp add: suffix_to_prefix startswith_def)
  have h2: "\<not> is_file_uri ''files/abc123''"
    by (simp add: is_file_uri_def startswith_def)
  have h3: "\<forall>s. JNum 7 \<noteq> JStr s" by simp
  from th h1 have
    "clean_fid (JStr (''http'' @ ''s://g/v1beta'' @ ''/files/'' @ ''abc123'')) = JStr (''files/'' @ ''abc123'')"
    by blast
  then have a: "clean_fid (JStr ''https://g/v1beta/files/abc123'') = JStr ''files/abc123''"
    by simp
  from th h2 have b: "clean_fid (JStr ''files/abc123'') = JStr ''files/abc123''" by blast
  from th h3 have c: "clean_fid (JNum 7) = JNum 7" by blast
  show ?thesis using a b c by blast
qed

section \<open>C8: view_file\<close>




section \<open>C9: the default MIME type\<close>



section \<open>C10: the outgoing turn\<close>



end
